theory Spec2Isabelle
  imports Main "HOL-Library.Sublist" "HOL-Library.Char_ord"
begin

section \<open>Filename sanitizer (\<open>sanitizeUrlToFileName\<close>)\<close>

text \<open>
  JavaScript strings are modelled as \<open>string\<close>; every character stands for one UTF-16
  code unit (so the model covers the strings whose code units are below 256, and
  \<open>length\<close> is the source's \<open>.length\<close>).
\<close>

text \<open>\<^verbatim>\<open>url.replace(/^https?:\/\//, '')\<close>: one scheme prefix is removed, if present.\<close>

definition strip_scheme :: "string \<Rightarrow> string" where
  "strip_scheme url =
     (if prefix ''http://'' url then drop 7 url
      else if prefix ''https://'' url then drop 8 url
      else url)"

text \<open>\<^verbatim>\<open>.replace(/\//g, '_')\<close>: every slash becomes an underscore.\<close>

definition replace_slashes :: "string \<Rightarrow> string" where
  "replace_slashes s = map (\<lambda>c. if c = CHR ''/'' then CHR ''_'' else c) s"

text \<open>
  \<^verbatim>\<open>.replace('.', '_')\<close>: with a string pattern, \<open>replace\<close> rewrites the first
  occurrence only.
\<close>

fun replace_first_dot :: "string \<Rightarrow> string" where
  "replace_first_dot [] = []"
| "replace_first_dot (c # cs) =
     (if c = CHR ''.'' then CHR ''_'' # cs else c # replace_first_dot cs)"

text \<open>The character class \<^verbatim>\<open>[a-zA-Z0-9_.-]\<close>.\<close>

definition allowed_char :: "char \<Rightarrow> bool" where
  "allowed_char c \<longleftrightarrow>
     (CHR ''a'' \<le> c \<and> c \<le> CHR ''z'') \<or> (CHR ''A'' \<le> c \<and> c \<le> CHR ''Z'') \<or>
     (CHR ''0'' \<le> c \<and> c \<le> CHR ''9'') \<or> c = CHR ''_'' \<or> c = CHR ''.'' \<or> c = CHR ''-''"

text \<open>\<^verbatim>\<open>.replace(/[^a-zA-Z0-9_.-]/g, '')\<close>.\<close>

definition strip_disallowed :: "string \<Rightarrow> string" where
  "strip_disallowed s = filter allowed_char s"

text \<open>\<^verbatim>\<open>if (fileName.length > 100) fileName = fileName.substring(0, 100)\<close>.\<close>

definition truncate_name :: "string \<Rightarrow> string" where
  "truncate_name s = (if length s > 100 then take 100 s else s)"

text \<open>
  \<^verbatim>\<open>if (fileName.length > 1 && (fileName.endsWith('.') || fileName.endsWith('_')))
    fileName = fileName.slice(0, -1)\<close>.
\<close>

definition drop_trailing :: "string \<Rightarrow> string" where
  "drop_trailing s =
     (if length s > 1 \<and> (suffix ''.'' s \<or> suffix ''_'' s) then butlast s else s)"

definition sanitizeUrlToFileName :: "string \<Rightarrow> string" where
  "sanitizeUrlToFileName url =
     (let fileName = strip_scheme url;
          fileName = strip_disallowed (replace_first_dot (replace_slashes fileName));
          fileName = truncate_name fileName;
          fileName = drop_trailing fileName
      in if fileName = [] then ''default_page_name'' else fileName @ ''.md'')"


section \<open>Parsed XML documents as JavaScript values\<close>

text \<open>
  The XML parser is an external library; its result is used untyped (\<^verbatim>\<open>as any\<close>), so the
  document is a JavaScript value. Numbers are restricted to integers: the code only
  tests them for truthiness.
\<close>

datatype jsval =
    JUndefined
  | JNull
  | JBool bool
  | JNum int
  | JStr string
  | JArr "jsval list"
  | JObj "(string \<times> jsval) list"

datatype js_error = Error string | TypeError string

fun message :: "js_error \<Rightarrow> string" where
  "message (Error m) = m"
| "message (TypeError m) = m"

fun truthy :: "jsval \<Rightarrow> bool" where
  "truthy JUndefined = False"
| "truthy JNull = False"
| "truthy (JBool b) = b"
| "truthy (JNum n) = (n \<noteq> 0)"
| "truthy (JStr s) = (s \<noteq> [])"
| "truthy (JArr xs) = True"
| "truthy (JObj ps) = True"

definition cannot_read :: "string \<Rightarrow> string \<Rightarrow> js_error" where
  "cannot_read what k =
     TypeError (''Cannot read properties of '' @ what @ '' (reading '' @ [CHR 0x27] @ k @ [CHR 0x27] @ '')'')"

text \<open>
  Property read \<^verbatim>\<open>v.k\<close> / \<^verbatim>\<open>v[k]\<close> for the keys the program reads (\<open>urlset\<close>, \<open>url\<close>,
  \<open>sitemapindex\<close>, \<open>sitemap\<close>, \<open>loc\<close>, \<open>#text\<close>): it throws on \<open>undefined\<close> and
  \<open>null\<close>, finds nothing on primitives and arrays, and looks the key up in an object.
\<close>

fun get_prop :: "jsval \<Rightarrow> string \<Rightarrow> js_error + jsval" where
  "get_prop JUndefined k = Inl (cannot_read ''undefined'' k)"
| "get_prop JNull k = Inl (cannot_read ''null'' k)"
| "get_prop (JObj ps) k = Inr (case map_of ps k of None \<Rightarrow> JUndefined | Some v \<Rightarrow> v)"
| "get_prop v k = Inr JUndefined"

text \<open>The same read where the receiver has already been tested truthy (it cannot throw).\<close>

definition read_prop :: "jsval \<Rightarrow> string \<Rightarrow> jsval" where
  "read_prop v k = (case get_prop v k of Inl e \<Rightarrow> JUndefined | Inr x \<Rightarrow> x)"

text \<open>\<^verbatim>\<open>Array.isArray(x) ? x : [x]\<close>.\<close>

fun as_array :: "jsval \<Rightarrow> jsval list" where
  "as_array (JArr xs) = xs"
| "as_array v = [v]"

text \<open>
  The location of an entry, as both loops of \<open>fetchSitemapUrls\<close> read it:
  \<^verbatim>\<open>if (u.loc && typeof u.loc === 'string') ... u.loc
  else if (u.loc && typeof u.loc['#text'] === 'string') ... u.loc['#text']\<close>
  and otherwise nothing (\<open>null\<close> in the \<open>urlset\<close> branch, no recursive call in the
  \<open>sitemapindex\<close> branch). Reading \<open>loc\<close> of a \<open>null\<close> or \<open>undefined\<close> entry throws.
\<close>

definition loc_text :: "jsval \<Rightarrow> js_error + string option" where
  "loc_text u =
     (case get_prop u ''loc'' of
        Inl e \<Rightarrow> Inl e
      | Inr loc \<Rightarrow>
          (case loc of
             JStr s \<Rightarrow> if s \<noteq> [] then Inr (Some s) else Inr None
           | _ \<Rightarrow>
               if truthy loc then
                 (case read_prop loc ''#text'' of JStr t \<Rightarrow> Inr (Some t) | _ \<Rightarrow> Inr None)
               else Inr None))"

section \<open>The outside world\<close>

datatype level = Log | Err | Warn

datatype event =
    Console level string
  | Fetch string
  | Launch
  | NewPage
  | Goto string
  | CloseBrowser
  | Mkdir string
  | WriteFile string string

text \<open>What \<^verbatim>\<open>fetch(url)\<close>, \<^verbatim>\<open>response.ok\<close> and \<^verbatim>\<open>response.text()\<close> give for a URL.\<close>

datatype fetch_outcome =
    FetchRejects string
  | NotOk string
  | TextRejects string
  | Body string

text \<open>
  What the headless browser does for a page URL: \<open>puppeteer.launch\<close> rejects,
  \<open>browser.newPage\<close> rejects, \<open>page.goto\<close> rejects (navigation error or the 60 s timeout),
  \<open>page.content\<close> rejects, or the rendered HTML.
\<close>

datatype render_outcome =
    LaunchFails string
  | NewPageFails string
  | GotoFails string
  | ContentFails string
  | Html string

text \<open>
  The collaborators of the program, fixed for a run: each answers by its argument.
  \<open>extract_md\<close> is \<^verbatim>\<open>toMarkdown(extract(html, { charThreshold: 100 }).root)\<close>.
\<close>

record env =
  fetch :: "string \<Rightarrow> fetch_outcome"
  parseXml :: "string \<Rightarrow> js_error + jsval"
  render :: "string \<Rightarrow> render_outcome"
  extract_md :: "string \<Rightarrow> js_error + string"
  mkdir :: "string \<Rightarrow> js_error option"
  writeTextFile :: "string \<Rightarrow> string \<Rightarrow> js_error option"

section \<open>Sitemap resolver (\<open>fetchSitemapUrls\<close>)\<close>

text \<open>
  Results carry the events emitted. \<open>None\<close> stands for a call that does not return: the
  nesting of sitemap indexes exceeds the depth bound given to \<open>fetchSitemapUrls\<close>.
\<close>

type_synonym 'a run = "('a \<times> event list) option"

text \<open>\<^verbatim>\<open>urls.map(u => ...)\<close>: the callback's first exception ends the map.\<close>

fun map_entries :: "jsval list \<Rightarrow> js_error + string option list" where
  "map_entries [] = Inr []"
| "map_entries (u # us) =
     (case loc_text u of
        Inl e \<Rightarrow> Inl e
      | Inr x \<Rightarrow> (case map_entries us of Inl e \<Rightarrow> Inl e | Inr xs \<Rightarrow> Inr (x # xs)))"

text \<open>\<^verbatim>\<open>.filter(u => u !== null)\<close>.\<close>

definition filter_non_null :: "string option list \<Rightarrow> string list" where
  "filter_non_null xs = List.map_filter id xs"

text \<open>
  \<^verbatim>\<open>for (const sm of sitemaps) { ... urls = urls.concat(await fetchSitemapUrls(...)) }\<close>,
  with \<open>rec\<close> the recursive call.
\<close>

fun sitemaps_loop ::
  "(string \<Rightarrow> (string list) run) \<Rightarrow> jsval list \<Rightarrow> string list \<Rightarrow> (js_error + string list) run" where
  "sitemaps_loop rec [] urls = Some (Inr urls, [])"
| "sitemaps_loop rec (sm # sms) urls =
     (case loc_text sm of
        Inl e \<Rightarrow> Some (Inl e, [])
      | Inr None \<Rightarrow> sitemaps_loop rec sms urls
      | Inr (Some l) \<Rightarrow>
          (case rec l of
             None \<Rightarrow> None
           | Some (nestedUrls, ev) \<Rightarrow>
               (case sitemaps_loop rec sms (urls @ nestedUrls) of
                  None \<Rightarrow> None
                | Some (r, ev') \<Rightarrow> Some (r, ev @ ev'))))"

definition invalid_format :: js_error where
  "invalid_format = Error ''Invalid sitemap format. No <urlset> or <sitemapindex> found.''"

text \<open>The part of the \<open>try\<close> block after \<open>parseXml\<close>.\<close>

definition classify :: "(string \<Rightarrow> (string list) run) \<Rightarrow> jsval \<Rightarrow> (js_error + string list) run" where
  "classify rec doc =
     (case get_prop doc ''urlset'' of
        Inl e \<Rightarrow> Some (Inl e, [])
      | Inr urlset \<Rightarrow>
          if \<not> truthy urlset \<or> \<not> truthy (read_prop urlset ''url'') then
            (case get_prop doc ''sitemapindex'' of
               Inl e \<Rightarrow> Some (Inl e, [])
             | Inr sitemapindex \<Rightarrow>
                 if truthy sitemapindex \<and> truthy (read_prop sitemapindex ''sitemap'') then
                   sitemaps_loop rec (as_array (read_prop sitemapindex ''sitemap'')) []
                 else Some (Inl invalid_format, []))
          else
            (case map_entries (as_array (read_prop urlset ''url'')) of
               Inl e \<Rightarrow> Some (Inl e, [])
             | Inr xs \<Rightarrow> Some (Inr (filter_non_null xs), [])))"

text \<open>The \<open>try\<close> block after the first log line.\<close>

definition sitemap_body :: "(string \<Rightarrow> (string list) run) \<Rightarrow> env \<Rightarrow> string \<Rightarrow> (js_error + string list) run" where
  "sitemap_body rec E sitemapUrl =
     (case fetch E sitemapUrl of
        FetchRejects m \<Rightarrow> Some (Inl (TypeError m), [])
      | NotOk statusText \<Rightarrow> Some (Inl (Error (''Failed to fetch sitemap: '' @ statusText)), [])
      | TextRejects m \<Rightarrow> Some (Inl (TypeError m), [])
      | Body xmlString \<Rightarrow>
          (case parseXml E xmlString of
             Inl e \<Rightarrow> Some (Inl e, [])
           | Inr doc \<Rightarrow> classify rec doc))"

definition fetching :: "string \<Rightarrow> event list" where
  "fetching sitemapUrl = [Console Log (''Fetching sitemap: '' @ sitemapUrl), Fetch sitemapUrl]"

definition caught :: "js_error \<Rightarrow> event" where
  "caught e = Console Err (''Error fetching or parsing sitemap: '' @ message e)"

text \<open>The whole function: the \<open>catch\<close> clause turns every exception into \<open>[]\<close>.\<close>

primrec fetchSitemapUrls :: "nat \<Rightarrow> env \<Rightarrow> string \<Rightarrow> (string list) run" where
  "fetchSitemapUrls 0 E sitemapUrl = None"
| "fetchSitemapUrls (Suc depth) E sitemapUrl =
     (case sitemap_body (fetchSitemapUrls depth E) E sitemapUrl of
        None \<Rightarrow> None
      | Some (Inr urls, ev) \<Rightarrow> Some (urls, fetching sitemapUrl @ ev)
      | Some (Inl e, ev) \<Rightarrow> Some ([], fetching sitemapUrl @ ev @ [caught e]))"


section \<open>Page render step (\<open>fetchPageHtml\<close>)\<close>

text \<open>
  \<open>puppeteer.launch\<close> and \<open>browser.newPage\<close> are called before the \<open>try\<close> block: their
  rejections leave the function as exceptions (\<open>Inl\<close>). Inside the block, a rejection of
  \<open>page.goto\<close> or \<open>page.content\<close> is logged and gives \<open>null\<close> (\<open>Inr None\<close>); the
  \<open>finally\<close> clause closes the browser. \<open>browser.close\<close> itself is taken to succeed.
\<close>

definition page_error :: "string \<Rightarrow> string \<Rightarrow> event" where
  "page_error pageUrl m = Console Err (''Error fetching page '' @ pageUrl @ '': '' @ m)"

definition fetchPageHtml :: "env \<Rightarrow> string \<Rightarrow> (js_error + string option) \<times> event list" where
  "fetchPageHtml E pageUrl =
     (case render E pageUrl of
        LaunchFails m \<Rightarrow> (Inl (Error m), [])
      | NewPageFails m \<Rightarrow> (Inl (Error m), [Launch])
      | GotoFails m \<Rightarrow>
          (Inr None, [Launch, NewPage, Goto pageUrl, page_error pageUrl m, CloseBrowser])
      | ContentFails m \<Rightarrow>
          (Inr None, [Launch, NewPage, Goto pageUrl, page_error pageUrl m, CloseBrowser])
      | Html html \<Rightarrow> (Inr (Some html), [Launch, NewPage, Goto pageUrl, CloseBrowser]))"

section \<open>Orchestrator (\<open>main\<close>)\<close>

text \<open>Decimal digits of a number, as a template literal prints \<open>urls.length\<close>.\<close>

definition digit :: "nat \<Rightarrow> char" where
  "digit d = char_of (48 + d)"

function dec :: "nat \<Rightarrow> string" where
  "dec n = (if n < 10 then [digit n] else dec (n div 10) @ [digit (n mod 10)])"
  by pat_completeness auto
termination
  by (relation "measure id") auto

declare dec.simps [simp del]

text \<open>
  \<^verbatim>\<open>for (const [index, pageUrl] of urls)\<close> iterates over the array \<open>urls\<close> itself (not over
  \<open>urls.entries()\<close>), so the pattern \<open>[index, pageUrl]\<close> destructures each URL string
  through the string iterator: \<open>index\<close> is its first character and \<open>pageUrl\<close> its second,
  each \<open>undefined\<close> (\<open>None\<close>) where the string is too short.
\<close>

fun destructure :: "string \<Rightarrow> string option \<times> string option" where
  "destructure [] = (None, None)"
| "destructure [c] = (Some [c], None)"
| "destructure (c # d # cs) = (Some [c], Some [d])"

text \<open>\<^verbatim>\<open>${pageUrl}\<close> and \<^verbatim>\<open>${index + 1}\<close> in the progress line.\<close>

fun shown :: "string option \<Rightarrow> string" where
  "shown None = ''undefined''"
| "shown (Some s) = s"

fun plus_one :: "string option \<Rightarrow> string" where
  "plus_one None = ''NaN''"
| "plus_one (Some s) = s @ ''1''"

definition processing :: "string option \<Rightarrow> string option \<Rightarrow> nat \<Rightarrow> event" where
  "processing index pageUrl len =
     Console Log ([CHR 0x0A] @ ''Processing URL: '' @ shown pageUrl @ '' ()'' @ plus_one index
                  @ ''/'' @ dec len @ '')'')"

definition skipping :: "string \<Rightarrow> event" where
  "skipping pageUrl = Console Warn (''Skipping '' @ pageUrl @ '' due to fetch error.'')"

definition writing :: "string \<Rightarrow> event" where
  "writing path = Console Log (''Writing to file: '' @ path)"

text \<open>\<^verbatim>\<open>join('docs', baseFileName)\<close> with the POSIX separator.\<close>

definition join_docs :: "string \<Rightarrow> string" where
  "join_docs baseFileName = ''docs/'' @ baseFileName"

text \<open>
  One iteration of the loop body; \<open>Some e\<close> is an exception that leaves \<open>main\<close>, \<open>None\<close>
  is the end of the iteration (also by \<open>continue\<close>). \<open>sanitizeUrlToFileName(undefined)\<close>
  throws at \<open>url.replace\<close>.
\<close>

definition process_url :: "env \<Rightarrow> nat \<Rightarrow> string \<Rightarrow> js_error option \<times> event list" where
  "process_url E len u =
     (case destructure u of
        (index, None) \<Rightarrow>
          (Some (cannot_read ''undefined'' ''replace''), [processing index None len])
      | (index, Some pageUrl) \<Rightarrow>
          (let line = processing index (Some pageUrl) len;
               baseFileName = sanitizeUrlToFileName pageUrl
           in case fetchPageHtml E pageUrl of
                (Inl e, ev) \<Rightarrow> (Some e, line # ev)
              | (Inr None, ev) \<Rightarrow> (None, line # ev @ [skipping pageUrl])
              | (Inr (Some html), ev) \<Rightarrow>
                  if html = [] then (None, line # ev @ [skipping pageUrl])
                  else
                    (case extract_md E html of
                       Inl e \<Rightarrow> (Some e, line # ev)
                     | Inr markdown \<Rightarrow>
                         (let path = join_docs baseFileName
                          in case writeTextFile E path markdown of
                               Some e \<Rightarrow> (Some e, line # ev @ [writing path])
                             | None \<Rightarrow>
                                 (None, line # ev @ [writing path, WriteFile path markdown])))))"

fun process_urls :: "env \<Rightarrow> nat \<Rightarrow> string list \<Rightarrow> js_error option \<times> event list" where
  "process_urls E len [] = (None, [])"
| "process_urls E len (u # us) =
     (case process_url E len u of
        (Some e, ev) \<Rightarrow> (Some e, ev)
      | (None, ev) \<Rightarrow> (case process_urls E len us of (r, ev') \<Rightarrow> (r, ev @ ev')))"

text \<open>
  How \<open>main\<close> ends: it returns, the process exits through \<open>Deno.exit\<close>, or an exception
  leaves it (no caller handles the rejection).
\<close>

datatype exit_status = Returned | Exited nat | Rejected js_error

definition usage :: "event list" where
  "usage =
     [Console Err ''Please provide a sitemap.xml URL as an argument.'',
      Console Log ''Usage: deno run --allow-net --allow-read --allow-write --allow-env --allow-run --unstable src/index.ts <sitemap_url>'']"

definition no_urls :: event where
  "no_urls = Console Log ''No URLs found in the sitemap or failed to fetch/parse sitemap.''"

definition found :: "nat \<Rightarrow> event" where
  "found n = Console Log (''Found '' @ dec n @ '' URLs in sitemap.'')"

definition finished :: event where
  "finished = Console Log ([CHR 0x0A] @ ''All processing finished.'')"

definition main :: "nat \<Rightarrow> env \<Rightarrow> string list \<Rightarrow> exit_status run" where
  "main depth E args =
     (case args of
        [] \<Rightarrow> Some (Exited 1, usage)
      | sitemapUrl # _ \<Rightarrow>
          (let start = Console Log (''Sitemap URL: '' @ sitemapUrl)
           in case fetchSitemapUrls depth E sitemapUrl of
                None \<Rightarrow> None
              | Some (urls, ev) \<Rightarrow>
                  if length urls = 0 then Some (Returned, start # ev @ [no_urls])
                  else
                    (case mkdir E ''docs'' of
                       Some e \<Rightarrow> Some (Rejected e, start # ev @ [found (length urls)])
                     | None \<Rightarrow>
                         (case process_urls E (length urls) urls of
                            (Some e, ev') \<Rightarrow>
                              Some (Rejected e,
                                    start # ev @ [found (length urls), Mkdir ''docs''] @ ev')
                          | (None, ev') \<Rightarrow>
                              Some (Returned,
                                    start # ev @ [found (length urls), Mkdir ''docs''] @ ev'
                                    @ [finished])))))"

section \<open>Reading a trace\<close>

fun written_paths :: "event list \<Rightarrow> string list" where
  "written_paths [] = []"
| "written_paths (WriteFile path text # tr) = path # written_paths tr"
| "written_paths (e # tr) = written_paths tr"

fun goto_urls :: "event list \<Rightarrow> string list" where
  "goto_urls [] = []"
| "goto_urls (Goto pageUrl # tr) = pageUrl # goto_urls tr"
| "goto_urls (e # tr) = goto_urls tr"


definition launched :: "event list \<Rightarrow> nat" where
  "launched tr = count_list tr Launch"

definition closed :: "event list \<Rightarrow> nat" where
  "closed tr = count_list tr CloseBrowser"

section \<open>Document shapes\<close>

text \<open>The two tests of \<open>fetchSitemapUrls\<close> that recognise a document.\<close>

definition is_urlset :: "jsval \<Rightarrow> bool" where
  "is_urlset doc =
     (case get_prop doc ''urlset'' of
        Inl e \<Rightarrow> False
      | Inr urlset \<Rightarrow> truthy urlset \<and> truthy (read_prop urlset ''url''))"

definition is_sitemapindex :: "jsval \<Rightarrow> bool" where
  "is_sitemapindex doc =
     (case get_prop doc ''sitemapindex'' of
        Inl e \<Rightarrow> False
      | Inr sitemapindex \<Rightarrow> truthy sitemapindex \<and> truthy (read_prop sitemapindex ''sitemap''))"

text \<open>
  The location an entry carries, in the words of the specification: a bare (non-empty)
  string under \<open>loc\<close>, or an object under \<open>loc\<close> holding a string under the text key
  \<open>#text\<close>; nothing otherwise.
\<close>

fun location_of :: "jsval \<Rightarrow> string option" where
  "location_of (JObj ps) =
     (case map_of ps ''loc'' of
        Some (JStr s) \<Rightarrow> if s = [] then None else Some s
      | Some (JObj qs) \<Rightarrow> (case map_of qs ''#text'' of Some (JStr t) \<Rightarrow> Some t | _ \<Rightarrow> None)
      | _ \<Rightarrow> None)"
| "location_of v = None"

text \<open>
  An entry that is a node of the tree, as the entries of the data model are: any value
  but \<open>null\<close> and \<open>undefined\<close>, on which reading \<open>loc\<close> throws.
\<close>

fun is_node :: "jsval \<Rightarrow> bool" where
  "is_node JUndefined = False"
| "is_node JNull = False"
| "is_node v = True"

text \<open>
  A sitemap that fails at its own node: the fetch fails, the XML does not parse, or the
  document has neither shape.
\<close>

definition node_fails :: "env \<Rightarrow> string \<Rightarrow> bool" where
  "node_fails E u =
     (case fetch E u of
        Body x \<Rightarrow>
          (case parseXml E x of
             Inl e \<Rightarrow> True
           | Inr doc \<Rightarrow> \<not> is_urlset doc \<and> \<not> is_sitemapindex doc)
      | _ \<Rightarrow> True)"

text \<open>The events of one iteration whose render fails with message \<open>m\<close>.\<close>

definition skipped :: "string option \<Rightarrow> string \<Rightarrow> string \<Rightarrow> nat \<Rightarrow> event list" where
  "skipped index pageUrl m len =
     [processing index (Some pageUrl) len, Launch, NewPage, Goto pageUrl,
      page_error pageUrl m, CloseBrowser, skipping pageUrl]"

section \<open>Scenarios\<close>

text \<open>
  A sitemap index with two children: the first lists three pages (and one entry without
  a location), the second cannot be fetched; an index with the first child alone; a
  page list with an empty entry between two pages; a page list that starts with the
  one-character location \<open>x\<close>. The browser renders the absolute
  \<open>http\<close> and \<open>https\<close> URLs and rejects the navigation to anything else.
\<close>

definition index_doc :: jsval where
  "index_doc =
     JObj [(''sitemapindex'',
            JObj [(''sitemap'',
                   JArr [JObj [(''loc'', JStr ''https://example.com/a.xml'')],
                         JObj [(''loc'', JObj [(''#text'', JStr ''https://example.com/b.xml'')])]])])]"

definition pages_doc :: jsval where
  "pages_doc =
     JObj [(''urlset'',
            JObj [(''url'',
                   JArr [JObj [(''loc'', JStr ''https://example.com/1'')],
                         JObj [(''loc'', JObj [(''#text'', JStr ''https://example.com/2'')])],
                         JObj [(''lastmod'', JStr ''2024-01-01'')],
                         JObj [(''loc'', JStr ''https://example.com/3'')]])])]"

definition single_index_doc :: jsval where
  "single_index_doc =
     JObj [(''sitemapindex'',
            JObj [(''sitemap'', JObj [(''loc'', JStr ''https://example.com/a.xml'')])])]"

definition gap_doc :: jsval where
  "gap_doc =
     JObj [(''urlset'',
            JObj [(''url'',
                   JArr [JObj [(''loc'', JStr ''https://example.com/1'')],
                         JNull,
                         JObj [(''loc'', JStr ''https://example.com/3'')]])])]"

definition short_doc :: jsval where
  "short_doc =
     JObj [(''urlset'',
            JObj [(''url'',
                   JArr [JObj [(''loc'', JStr ''x'')],
                         JObj [(''loc'', JStr ''https://example.com/2'')]])])]"

definition empty_urlset_doc :: jsval where
  "empty_urlset_doc = JObj [(''urlset'', JObj [(''@xmlns'', JStr ''http://www.sitemaps.org/schemas/sitemap/0.9'')])]"

definition site :: env where
  "site =
     \<lparr> fetch = (\<lambda>u. if u = ''https://example.com/sitemap.xml'' then Body ''index''
                     else if u = ''https://example.com/a.xml'' then Body ''pages''
                     else if u = ''https://example.com/single.xml'' then Body ''single''
                     else if u = ''https://example.com/gap.xml'' then Body ''gap''
                     else if u = ''https://example.com/short.xml'' then Body ''short''
                     else if u = ''https://example.com/empty.xml'' then Body ''empty''
                     else if u = ''https://example.com/broken.xml'' then Body ''<''
                     else if u = ''https://down.example.com/'' then FetchRejects ''error sending request''
                     else NotOk ''Not Found''),
       parseXml = (\<lambda>x. if x = ''index'' then Inr index_doc
                        else if x = ''pages'' then Inr pages_doc
                        else if x = ''single'' then Inr single_index_doc
                        else if x = ''gap'' then Inr gap_doc
                        else if x = ''short'' then Inr short_doc
                        else if x = ''empty'' then Inr empty_urlset_doc
                        else Inl (Error ''Malformed XML document'')),
       render = (\<lambda>p. if prefix ''http://'' p \<or> prefix ''https://'' p then Html ''<p>page</p>''
                      else GotoFails ''Protocol error (Page.navigate): Cannot navigate to invalid URL''),
       extract_md = (\<lambda>html. Inr ''page''),
       mkdir = (\<lambda>path. None),
       writeTextFile = (\<lambda>path text. None) \<rparr>"

text \<open>The same site with a browser whose pages cannot be opened.\<close>

definition site_no_page :: env where
  "site_no_page = site \<lparr> render := (\<lambda>p. NewPageFails ''Target closed'') \<rparr>"


section \<open>Auxiliary facts\<close>

lemma get_prop_truthy: "truthy v \<Longrightarrow> get_prop v k = Inr (read_prop v k)"
  by (cases v) (simp_all add: read_prop_def)

lemma loc_text_node: "is_node e \<Longrightarrow> loc_text e = Inr (location_of e)"
proof (cases e)
  case (JObj ps)
  show ?thesis
  proof (cases "map_of ps ''loc''")
    case None
    with JObj show ?thesis by (simp add: loc_text_def)
  next
    case (Some loc)
    with JObj show ?thesis
      by (cases loc) (auto simp: loc_text_def read_prop_def split: option.splits jsval.splits)
  qed
qed (simp_all add: loc_text_def)

lemma location_is_node: "location_of e = Some l \<Longrightarrow> is_node e"
  by (cases e) simp_all

lemma map_entries_nodes:
  "\<forall>e\<in>set es. is_node e \<Longrightarrow> map_entries es = Inr (map location_of es)"
  by (induction es) (simp_all add: loc_text_node)

lemma filter_non_null_map: "filter_non_null (map f es) = List.map_filter f es"
  by (induction es) (simp_all add: filter_non_null_def List.map_filter_def)

lemma map_filter_all_located:
  "\<forall>e\<in>set es. f e \<noteq> None \<Longrightarrow> map Some (List.map_filter f es) = map f es"
  by (induction es) (auto simp: List.map_filter_def)

lemma sitemaps_loop_located:
  "map location_of entries = map Some locs \<Longrightarrow> map rec locs = map Some rs \<Longrightarrow>
   sitemaps_loop rec entries urls = Some (Inr (urls @ concat (map fst rs)), concat (map snd rs))"
proof (induction entries arbitrary: locs rs urls)
  case Nil
  then show ?case by simp
next
  case (Cons e es)
  from Cons.prems(1) obtain l ls where locs: "locs = l # ls" and l: "location_of e = Some l"
    and ls: "map location_of es = map Some ls"
    by (cases locs) auto
  from Cons.prems(2) locs obtain r rs' where rs: "rs = r # rs'" and r: "rec l = Some r"
    and rs': "map rec ls = map Some rs'"
    by (cases rs) auto
  have "loc_text e = Inr (Some l)"
    using l by (simp add: loc_text_node location_is_node)
  then show ?case
    using r rs Cons.IH [OF ls rs'] by (cases r) simp
qed

lemma classify_urlset:
  assumes "get_prop doc ''urlset'' = Inr urlset" "truthy urlset" "truthy (read_prop urlset ''url'')"
    and "\<forall>e\<in>set (as_array (read_prop urlset ''url'')). is_node e"
  shows "classify rec doc =
           Some (Inr (List.map_filter location_of (as_array (read_prop urlset ''url''))), [])"
  using assms by (simp add: classify_def map_entries_nodes filter_non_null_map)

lemma classify_neither:
  assumes "\<not> is_urlset doc" and "\<not> is_sitemapindex doc"
  shows "\<exists>e. classify rec doc = Some (Inl e, [])"
proof (cases "get_prop doc ''urlset''")
  case (Inl e)
  then show ?thesis by (simp add: classify_def)
next
  case (Inr urlset)
  then obtain si where si: "get_prop doc ''sitemapindex'' = Inr si"
    by (cases doc) simp_all
  with Inr assms show ?thesis
    by (auto simp: classify_def is_urlset_def is_sitemapindex_def)
qed

lemma classify_neither_node:
  assumes "is_node doc" and "\<not> is_urlset doc" and "\<not> is_sitemapindex doc"
  shows "classify rec doc = Some (Inl invalid_format, [])"
  using assms by (cases doc) (auto simp: classify_def is_urlset_def is_sitemapindex_def)

lemma node_fails_body:
  assumes "node_fails E u"
  shows "\<exists>e. sitemap_body rec E u = Some (Inl e, [])"
proof (cases "fetch E u")
  case (Body x)
  show ?thesis
  proof (cases "parseXml E x")
    case (Inl e)
    with Body show ?thesis by (simp add: sitemap_body_def)
  next
    case (Inr doc)
    with Body assms have "\<not> is_urlset doc" "\<not> is_sitemapindex doc"
      by (simp_all add: node_fails_def)
    then obtain e where "classify rec doc = Some (Inl e, [])"
      using classify_neither by blast
    with Body Inr show ?thesis by (simp add: sitemap_body_def)
  qed
qed (simp_all add: sitemap_body_def)

lemma node_fails_empty:
  assumes "node_fails E u" and "fetchSitemapUrls depth E u = Some r"
  shows "fst r = []"
proof (cases depth)
  case 0
  with assms(2) show ?thesis by simp
next
  case (Suc d)
  obtain e where "sitemap_body (fetchSitemapUrls d E) E u = Some (Inl e, [])"
    using node_fails_body [OF assms(1)] by blast
  with assms(2) Suc show ?thesis by auto
qed

text \<open>A \<open>null\<close> entry (an empty element) among the entries makes the whole map throw.\<close>

lemma map_entries_null: "\<exists>e. map_entries (es @ JNull # es') = Inl e"
  by (induction es) (auto simp: loc_text_def split: sum.splits)

lemma process_url_skips:
  assumes "destructure u = (index, Some pageUrl)"
    and "render E pageUrl = GotoFails m \<or> render E pageUrl = ContentFails m"
  shows "process_url E len u = (None, skipped index pageUrl m len)"
  using assms by (auto simp: process_url_def fetchPageHtml_def skipped_def)

lemma sanitize_not_empty: "sanitizeUrlToFileName url \<noteq> []"
  by (simp add: sanitizeUrlToFileName_def Let_def)

lemma sanitize_default_or_md:
  "sanitizeUrlToFileName url = ''default_page_name'' \<or> suffix ''.md'' (sanitizeUrlToFileName url)"
  by (simp add: sanitizeUrlToFileName_def Let_def suffix_def)

lemma browser_closed_inside_try:
  "(\<exists>m. render E pageUrl = NewPageFails m) \<or>
   launched (snd (fetchPageHtml E pageUrl)) = closed (snd (fetchPageHtml E pageUrl))"
  by (cases "render E pageUrl")
    (simp_all add: fetchPageHtml_def launched_def closed_def page_error_def)

section \<open>The run loop\<close>

text \<open>
  C1. The claim: for every non-empty list of discovered URLs the loop runs the page
  pipeline once per URL, in order, on the discovered URL itself, so that the index
  scenario (three pages, one failed sibling) processes three URLs into three files.
  The loop does run once per URL and in order, but it destructures each URL string:
  in the scenario the resolver finds the three URLs, each of which the browser would
  render; the renderer is sent to the second character \<open>t\<close> of each instead, and the
  run returns without having written a file.
\<close>

theorem loop_passes_second_character:
  "map_option fst (fetchSitemapUrls 2 site ''https://example.com/sitemap.xml'') =
     Some [''https://example.com/1'', ''https://example.com/2'', ''https://example.com/3'']
   \<and> map (render site) [''https://example.com/1'', ''https://example.com/2'', ''https://example.com/3'']
       = [Html ''<p>page</p>'', Html ''<p>page</p>'', Html ''<p>page</p>'']
   \<and> map_option (\<lambda>r. (fst r, goto_urls (snd r), written_paths (snd r)))
        (main 2 site [''https://example.com/sitemap.xml'']) =
     Some (Returned, [''t'', ''t'', ''t''], [])"
  by code_simp

section \<open>The sanitizer\<close>

text \<open>
  C2. The claim: the sanitizer is total and always returns a non-empty name ending in
  \<open>.md\<close>; for the empty string or an input that is stripped away entirely it returns the
  default base name plus \<open>.md\<close>. The function is total and its result is never empty
  (\<open>sanitize_not_empty\<close>), but the default name is returned before the extension is
  appended: the empty string and \<open>https://\<close> give \<open>default_page_name\<close>.
\<close>

theorem default_name_has_no_extension:
  "sanitizeUrlToFileName '''' = ''default_page_name''
   \<and> sanitizeUrlToFileName ''https://'' = ''default_page_name''
   \<and> \<not> suffix ''.md'' (sanitizeUrlToFileName ''https://'')"
  by code_simp

text \<open>
  C3. The claim: the third rule deletes the first dot, so that
  \<open>https://example.com/docs/page-one\<close> becomes \<open>examplecom_docs_page-one.md\<close>. It does
  not: the result differs from that name.
\<close>

theorem first_dot_deleted_counterexample:
  "sanitizeUrlToFileName ''https://example.com/docs/page-one'' \<noteq> ''examplecom_docs_page-one.md''"
  by code_simp

text \<open>
  C3, as amended: the third rule replaces the first dot by an underscore and leaves the
  rest of the string as it is, so that \<open>https://example.com/docs/page-one\<close> becomes
  \<open>example_com_docs_page-one.md\<close>.
\<close>

theorem first_dot_becomes_underscore:
  "(CHR ''.'' \<notin> set xs \<longrightarrow> replace_first_dot (xs @ CHR ''.'' # ys) = xs @ CHR ''_'' # ys)
   \<and> sanitizeUrlToFileName ''https://example.com/docs/page-one'' = ''example_com_docs_page-one.md''"
proof
  show "CHR ''.'' \<notin> set xs \<longrightarrow> replace_first_dot (xs @ CHR ''.'' # ys) = xs @ CHR ''_'' # ys"
    by (induction xs) auto
  show "sanitizeUrlToFileName ''https://example.com/docs/page-one'' = ''example_com_docs_page-one.md''"
    by code_simp
qed

theorem first_dot_becomes_underscore_witness:
  "CHR ''.'' \<notin> set ''example''
   \<and> replace_first_dot ''example.com_docs_v1.2'' = ''example_com_docs_v1.2''"
proof -
  have h: "CHR ''.'' \<notin> set ''example''" by simp
  show ?thesis
    using h first_dot_becomes_underscore [of "''example''" "''com_docs_v1.2''"] by simp
qed

section \<open>The resolver\<close>

text \<open>
  C4. For a sitemap index (a document not taken as a \<open>urlset\<close>, whose \<open>sitemapindex\<close>
  root holds the \<open>sitemap\<close> children, an array of them or a single one) whose entries
  all carry a location (bare string or text object), the resolver returns the
  concatenation, in entry order, of what resolving each child returns; a child that
  fails at its own node (fetch, parse or shape) contributes the empty list, whatever
  its siblings contribute. The children are resolved one level below the index: if
  they return within \<open>depth\<close> levels, the index returns within \<open>depth + 1\<close>.
\<close>

theorem index_concatenates_children:
  assumes "fetch E u = Body x" and "parseXml E x = Inr (JObj dps)"
    and "\<not> is_urlset (JObj dps)"
    and "map_of dps ''sitemapindex'' = Some (JObj ps)"
    and "map_of ps ''sitemap'' = Some sm"
    and "sm = JArr entries \<or> entries = [sm]"
    and "map location_of entries = map Some locs"
    and "map (fetchSitemapUrls depth E) locs = map Some rs"
  shows "fetchSitemapUrls (Suc depth) E u =
           Some (concat (map fst rs),
                 [Console Log (''Fetching sitemap: '' @ u), Fetch u] @ concat (map snd rs))
         \<and> (\<forall>i<length locs. node_fails E (locs ! i) \<longrightarrow> fst (rs ! i) = [])"
proof
  have arr: "as_array sm = entries"
  proof (cases "sm = JArr entries")
    case True
    then show ?thesis by simp
  next
    case False
    with assms(6) have e: "entries = [sm]" by simp
    with assms(7) obtain l where "location_of sm = Some l"
      by (cases locs) auto
    then obtain qs where "sm = JObj qs"
      by (cases sm) simp_all
    with e show ?thesis by simp
  qed
  have tr: "truthy sm"
  proof (cases "sm = JArr entries")
    case True
    then show ?thesis by simp
  next
    case False
    with assms(6) have e: "entries = [sm]" by simp
    with assms(7) obtain l where "location_of sm = Some l"
      by (cases locs) auto
    then obtain qs where "sm = JObj qs"
      by (cases sm) simp_all
    then show ?thesis by simp
  qed
  obtain urlset where us: "get_prop (JObj dps) ''urlset'' = Inr urlset"
    by simp
  with assms(3) have "\<not> truthy urlset \<or> \<not> truthy (read_prop urlset ''url'')"
    by (simp add: is_urlset_def)
  then have "classify (fetchSitemapUrls depth E) (JObj dps) =
               sitemaps_loop (fetchSitemapUrls depth E) entries []"
    using us assms(4,5) arr tr by (auto simp add: classify_def read_prop_def)
  then show "fetchSitemapUrls (Suc depth) E u =
               Some (concat (map fst rs),
                     [Console Log (''Fetching sitemap: '' @ u), Fetch u] @ concat (map snd rs))"
    using assms(1,2) sitemaps_loop_located [OF assms(7,8), of "[]"]
    by (simp add: sitemap_body_def fetching_def)
  show "\<forall>i<length locs. node_fails E (locs ! i) \<longrightarrow> fst (rs ! i) = []"
  proof (intro allI impI)
    fix i assume i: "i < length locs" and f: "node_fails E (locs ! i)"
    have len: "length rs = length locs"
      using assms(8) by (metis length_map)
    have "map (fetchSitemapUrls depth E) locs ! i = map Some rs ! i"
      using assms(8) by simp
    then have "fetchSitemapUrls depth E (locs ! i) = Some (rs ! i)"
      using i len by simp
    then show "fst (rs ! i) = []"
      using f node_fails_empty by blast
  qed
qed

theorem index_concatenates_children_witness:
  "fetchSitemapUrls (Suc 1) site ''https://example.com/sitemap.xml'' =
     Some ([''https://example.com/1'', ''https://example.com/2'', ''https://example.com/3''],
           [Console Log ''Fetching sitemap: https://example.com/sitemap.xml'',
            Fetch ''https://example.com/sitemap.xml'',
            Console Log ''Fetching sitemap: https://example.com/a.xml'',
            Fetch ''https://example.com/a.xml'',
            Console Log ''Fetching sitemap: https://example.com/b.xml'',
            Fetch ''https://example.com/b.xml'',
            Console Err ''Error fetching or parsing sitemap: Failed to fetch sitemap: Not Found''])
   \<and> node_fails site ''https://example.com/b.xml''
   \<and> fetchSitemapUrls (Suc 1) site ''https://example.com/single.xml'' =
     Some ([''https://example.com/1'', ''https://example.com/2'', ''https://example.com/3''],
           [Console Log ''Fetching sitemap: https://example.com/single.xml'',
            Fetch ''https://example.com/single.xml'',
            Console Log ''Fetching sitemap: https://example.com/a.xml'',
            Fetch ''https://example.com/a.xml''])"
proof -
  let ?a = "JObj [(''loc'', JStr ''https://example.com/a.xml'')]"
  let ?b = "JObj [(''loc'', JObj [(''#text'', JStr ''https://example.com/b.xml'')])]"
  let ?pages = "[''https://example.com/1'', ''https://example.com/2'', ''https://example.com/3'']"
  let ?ra = "(?pages, [Console Log ''Fetching sitemap: https://example.com/a.xml'',
                       Fetch ''https://example.com/a.xml''])"
  let ?rb = "([], [Console Log ''Fetching sitemap: https://example.com/b.xml'',
                   Fetch ''https://example.com/b.xml'',
                   Console Err ''Error fetching or parsing sitemap: Failed to fetch sitemap: Not Found''])"
  have h1: "fetch site ''https://example.com/sitemap.xml'' = Body ''index''"
    by (simp add: site_def)
  have h2: "parseXml site ''index'' =
              Inr (JObj [(''sitemapindex'', JObj [(''sitemap'', JArr [?a, ?b])])])"
    by (simp add: site_def index_doc_def)
  have h3: "\<not> is_urlset (JObj [(''sitemapindex'', JObj [(''sitemap'', JArr [?a, ?b])])])"
    by (simp add: is_urlset_def)
  have h4: "map_of [(''sitemapindex'', JObj [(''sitemap'', JArr [?a, ?b])])] ''sitemapindex'' =
              Some (JObj [(''sitemap'', JArr [?a, ?b])])"
    by simp
  have h5: "map_of [(''sitemap'', JArr [?a, ?b])] ''sitemap'' = Some (JArr [?a, ?b])"
    by simp
  have h6: "JArr [?a, ?b] = JArr [?a, ?b] \<or> [?a, ?b] = [JArr [?a, ?b]]"
    by simp
  have h7: "map location_of [?a, ?b] =
              map Some [''https://example.com/a.xml'', ''https://example.com/b.xml'']"
    by simp
  have h8: "map (fetchSitemapUrls 1 site)
              [''https://example.com/a.xml'', ''https://example.com/b.xml''] = map Some [?ra, ?rb]"
    by code_simp
  have h9: "node_fails site ''https://example.com/b.xml''"
    by (simp add: node_fails_def site_def)
  have s1: "fetch site ''https://example.com/single.xml'' = Body ''single''"
    by (simp add: site_def)
  have s2: "parseXml site ''single'' =
              Inr (JObj [(''sitemapindex'', JObj [(''sitemap'', ?a)])])"
    by (simp add: site_def single_index_doc_def)
  have s3: "\<not> is_urlset (JObj [(''sitemapindex'', JObj [(''sitemap'', ?a)])])"
    by (simp add: is_urlset_def)
  have s4: "map_of [(''sitemapindex'', JObj [(''sitemap'', ?a)])] ''sitemapindex'' =
              Some (JObj [(''sitemap'', ?a)])"
    by simp
  have s5: "map_of [(''sitemap'', ?a)] ''sitemap'' = Some ?a"
    by simp
  have s6: "?a = JArr [?a] \<or> [?a] = [?a]"
    by simp
  have s7: "map location_of [?a] = map Some [''https://example.com/a.xml'']"
    by simp
  have s8: "map (fetchSitemapUrls 1 site) [''https://example.com/a.xml''] = map Some [?ra]"
    by code_simp
  show ?thesis
    using index_concatenates_children [OF h1 h2 h3 h4 h5 h6 h7 h8]
      index_concatenates_children [OF s1 s2 s3 s4 s5 s6 s7 s8] h9
    by simp
qed

text \<open>
  What the \<open>urlset\<close> branch returns when every entry is a node of the tree: the
  locations of the entries that carry one, in document order.
\<close>

lemma urlset_locations_of_nodes:
  assumes "fetch E u = Body x" and "parseXml E x = Inr doc"
    and "get_prop doc ''urlset'' = Inr urlset" and "truthy urlset"
    and "truthy (read_prop urlset ''url'')"
    and "as_array (read_prop urlset ''url'') = entries"
    and "\<forall>e\<in>set entries. is_node e"
  shows "fetchSitemapUrls (Suc depth) E u = Some (List.map_filter location_of entries, fetching u)"
  using assms by (simp add: sitemap_body_def classify_urlset)

text \<open>
  C5. The claim: a \<open>urlset\<close> document whose \<open>N\<close> entries carry a location gives exactly
  \<open>N\<close> URLs in document order, and entries with neither form of location are dropped
  while the others keep their order. The callback returns \<open>null\<close> for such an entry and
  the filter removes it, but an entry that is itself \<open>null\<close> (an empty \<open>url\<close> element)
  is not tested for: reading its \<open>loc\<close> throws, the \<open>catch\<close> clause returns the empty
  list, and the locations of the other entries are lost. In the scenario the document
  lists two located entries around an empty one: dropping the empty entry would leave
  the two URLs, and the resolver returns none.
\<close>

theorem null_entry_loses_all_urls:
  "List.map_filter location_of
     [JObj [(''loc'', JStr ''https://example.com/1'')], JNull,
      JObj [(''loc'', JStr ''https://example.com/3'')]] =
     [''https://example.com/1'', ''https://example.com/3'']
   \<and> fetch site ''https://example.com/gap.xml'' = Body ''gap''
   \<and> parseXml site ''gap'' =
       Inr (JObj [(''urlset'',
                   JObj [(''url'',
                          JArr [JObj [(''loc'', JStr ''https://example.com/1'')], JNull,
                                JObj [(''loc'', JStr ''https://example.com/3'')]])])])
   \<and> fetchSitemapUrls 1 site ''https://example.com/gap.xml'' =
       Some ([], [Console Log ''Fetching sitemap: https://example.com/gap.xml'',
                  Fetch ''https://example.com/gap.xml'',
                  Console Err (''Error fetching or parsing sitemap: Cannot read properties of null (reading ''
                               @ [CHR 0x27] @ ''loc'' @ [CHR 0x27] @ '')'')])"
  by code_simp

text \<open>
  C6. The resolver never raises: whatever exception the \<open>try\<close> block ends with, the call
  returns the empty list after logging the error on the error console, with the
  exception's message. In particular: an HTTP status that is not a success, a rejected
  fetch or body read, an XML parse failure, and a document that has neither the
  \<open>urlset\<close> nor the \<open>sitemapindex\<close> shape (a node of the tree gives the invalid-format
  error; on \<open>null\<close> or \<open>undefined\<close> the read of \<open>urlset\<close> throws).
\<close>

theorem resolver_never_raises:
  "(sitemap_body (fetchSitemapUrls depth E) E u = Some (Inl e, ev)
      \<and> (e = Error m0 \<or> e = TypeError m0) \<longrightarrow>
      fetchSitemapUrls (Suc depth) E u =
        Some ([], [Console Log (''Fetching sitemap: '' @ u), Fetch u] @ ev
                  @ [Console Err (''Error fetching or parsing sitemap: '' @ m0)]))
   \<and> (fetch E u = NotOk statusText \<longrightarrow>
      fetchSitemapUrls (Suc depth) E u =
        Some ([], [Console Log (''Fetching sitemap: '' @ u), Fetch u,
                   Console Err (''Error fetching or parsing sitemap: Failed to fetch sitemap: ''
                                @ statusText)]))
   \<and> (fetch E u = FetchRejects m \<or> fetch E u = TextRejects m \<longrightarrow>
      fetchSitemapUrls (Suc depth) E u =
        Some ([], [Console Log (''Fetching sitemap: '' @ u), Fetch u,
                   Console Err (''Error fetching or parsing sitemap: '' @ m)]))
   \<and> (fetch E u = Body x
      \<and> (parseXml E x = Inl (Error m') \<or> parseXml E x = Inl (TypeError m')) \<longrightarrow>
      fetchSitemapUrls (Suc depth) E u =
        Some ([], [Console Log (''Fetching sitemap: '' @ u), Fetch u,
                   Console Err (''Error fetching or parsing sitemap: '' @ m')]))
   \<and> (fetch E u = Body x \<and> parseXml E x = Inr doc \<and> is_node doc
      \<and> \<not> is_urlset doc \<and> \<not> is_sitemapindex doc \<longrightarrow>
      fetchSitemapUrls (Suc depth) E u =
        Some ([], [Console Log (''Fetching sitemap: '' @ u), Fetch u,
                   Console Err ''Error fetching or parsing sitemap: Invalid sitemap format. No <urlset> or <sitemapindex> found.'']))
   \<and> (fetch E u = Body x \<and> parseXml E x = Inr JNull \<longrightarrow>
      fetchSitemapUrls (Suc depth) E u =
        Some ([], [Console Log (''Fetching sitemap: '' @ u), Fetch u,
                   Console Err (''Error fetching or parsing sitemap: Cannot read properties of null (reading ''
                                @ [CHR 0x27] @ ''urlset'' @ [CHR 0x27] @ '')'')]))
   \<and> (fetch E u = Body x \<and> parseXml E x = Inr JUndefined \<longrightarrow>
      fetchSitemapUrls (Suc depth) E u =
        Some ([], [Console Log (''Fetching sitemap: '' @ u), Fetch u,
                   Console Err (''Error fetching or parsing sitemap: Cannot read properties of undefined (reading ''
                                @ [CHR 0x27] @ ''urlset'' @ [CHR 0x27] @ '')'')]))"
proof (intro conjI impI)
  assume "fetch E u = Body x \<and> parseXml E x = Inr doc \<and> is_node doc
      \<and> \<not> is_urlset doc \<and> \<not> is_sitemapindex doc"
  then have b: "fetch E u = Body x" "parseXml E x = Inr doc"
    and n: "is_node doc" "\<not> is_urlset doc" "\<not> is_sitemapindex doc"
    by simp_all
  have "classify (fetchSitemapUrls depth E) doc = Some (Inl invalid_format, [])"
    using n by (rule classify_neither_node)
  with b show "fetchSitemapUrls (Suc depth) E u =
        Some ([], [Console Log (''Fetching sitemap: '' @ u), Fetch u,
                   Console Err ''Error fetching or parsing sitemap: Invalid sitemap format. No <urlset> or <sitemapindex> found.''])"
    by (simp add: sitemap_body_def fetching_def caught_def invalid_format_def)
qed (auto simp: sitemap_body_def fetching_def caught_def classify_def cannot_read_def)

theorem resolver_never_raises_witness:
  "fetchSitemapUrls (Suc 0) site ''https://example.com/missing.xml'' =
     Some ([], [Console Log ''Fetching sitemap: https://example.com/missing.xml'',
                Fetch ''https://example.com/missing.xml'',
                Console Err ''Error fetching or parsing sitemap: Failed to fetch sitemap: Not Found''])
   \<and> fetchSitemapUrls (Suc 0) site ''https://down.example.com/'' =
     Some ([], [Console Log ''Fetching sitemap: https://down.example.com/'',
                Fetch ''https://down.example.com/'',
                Console Err ''Error fetching or parsing sitemap: error sending request''])
   \<and> fetchSitemapUrls (Suc 0) site ''https://example.com/broken.xml'' =
     Some ([], [Console Log ''Fetching sitemap: https://example.com/broken.xml'',
                Fetch ''https://example.com/broken.xml'',
                Console Err ''Error fetching or parsing sitemap: Malformed XML document''])
   \<and> fetchSitemapUrls (Suc 0) site ''https://example.com/empty.xml'' =
     Some ([], [Console Log ''Fetching sitemap: https://example.com/empty.xml'',
                Fetch ''https://example.com/empty.xml'',
                Console Err ''Error fetching or parsing sitemap: Invalid sitemap format. No <urlset> or <sitemapindex> found.''])
   \<and> fetchSitemapUrls (Suc 0) site ''https://example.com/gap.xml'' =
     Some ([], [Console Log ''Fetching sitemap: https://example.com/gap.xml'',
                Fetch ''https://example.com/gap.xml'',
                Console Err (''Error fetching or parsing sitemap: Cannot read properties of null (reading ''
                             @ [CHR 0x27] @ ''loc'' @ [CHR 0x27] @ '')'')])"
proof -
  let ?null_loc = "''Cannot read properties of null (reading '' @ [CHR 0x27] @ ''loc'' @ [CHR 0x27] @ '')''"
  have a: "fetch site ''https://example.com/missing.xml'' = NotOk ''Not Found''"
    by (simp add: site_def)
  have b: "fetch site ''https://down.example.com/'' = FetchRejects ''error sending request''
           \<or> fetch site ''https://down.example.com/'' = TextRejects ''error sending request''"
    by (simp add: site_def)
  have c: "fetch site ''https://example.com/broken.xml'' = Body ''<''
           \<and> (parseXml site ''<'' = Inl (Error ''Malformed XML document'')
              \<or> parseXml site ''<'' = Inl (TypeError ''Malformed XML document''))"
    by (simp add: site_def)
  have d: "fetch site ''https://example.com/empty.xml'' = Body ''empty''
           \<and> parseXml site ''empty'' = Inr empty_urlset_doc \<and> is_node empty_urlset_doc
           \<and> \<not> is_urlset empty_urlset_doc \<and> \<not> is_sitemapindex empty_urlset_doc"
    by (simp add: site_def is_urlset_def is_sitemapindex_def empty_urlset_doc_def read_prop_def)
  have g: "sitemap_body (fetchSitemapUrls 0 site) site ''https://example.com/gap.xml'' =
             Some (Inl (TypeError ?null_loc), [])
           \<and> (TypeError ?null_loc = Error ?null_loc \<or> TypeError ?null_loc = TypeError ?null_loc)"
    by code_simp
  show ?thesis
    using a b c d g
      resolver_never_raises [where depth = 0 and E = site
        and u = "''https://example.com/missing.xml''" and statusText = "''Not Found''"]
      resolver_never_raises [where depth = 0 and E = site
        and u = "''https://down.example.com/''" and m = "''error sending request''"]
      resolver_never_raises [where depth = 0 and E = site
        and u = "''https://example.com/broken.xml''" and x = "''<''"
        and m' = "''Malformed XML document''"]
      resolver_never_raises [where depth = 0 and E = site
        and u = "''https://example.com/empty.xml''" and x = "''empty''"
        and doc = empty_urlset_doc]
      resolver_never_raises [where depth = 0 and E = site
        and u = "''https://example.com/gap.xml''" and e = "TypeError ?null_loc"
        and ev = "[]" and ?m0.0 = ?null_loc]
    by simp
qed

text \<open>
  C10. A document whose \<open>urlset\<close> root is present but holds no \<open>url\<close> entry (and which
  has no \<open>sitemapindex\<close> root) is not taken as an empty list of pages: the resolver
  logs the invalid-format error and returns the empty list.
\<close>

theorem empty_urlset_is_invalid:
  assumes "fetch E u = Body x" and "parseXml E x = Inr (JObj ps)"
    and "map_of ps ''urlset'' = Some urlset"
    and "\<not> truthy (read_prop urlset ''url'')"
    and "map_of ps ''sitemapindex'' = None"
  shows "fetchSitemapUrls (Suc depth) E u =
           Some ([], fetching u @
             [Console Err ''Error fetching or parsing sitemap: Invalid sitemap format. No <urlset> or <sitemapindex> found.''])"
  using assms by (simp add: sitemap_body_def classify_def caught_def invalid_format_def)

theorem empty_urlset_is_invalid_witness:
  "fetchSitemapUrls (Suc 0) site ''https://example.com/empty.xml'' =
     Some ([], [Console Log ''Fetching sitemap: https://example.com/empty.xml'',
                Fetch ''https://example.com/empty.xml'',
                Console Err ''Error fetching or parsing sitemap: Invalid sitemap format. No <urlset> or <sitemapindex> found.''])"
proof -
  let ?urlset = "JObj [(''@xmlns'', JStr ''http://www.sitemaps.org/schemas/sitemap/0.9'')]"
  have h1: "fetch site ''https://example.com/empty.xml'' = Body ''empty''"
    by (simp add: site_def)
  have h2: "parseXml site ''empty'' = Inr (JObj [(''urlset'', ?urlset)])"
    by (simp add: site_def empty_urlset_doc_def)
  have h3: "map_of [(''urlset'', ?urlset)] ''urlset'' = Some ?urlset"
    by simp
  have h4: "\<not> truthy (read_prop ?urlset ''url'')"
    by (simp add: read_prop_def)
  have h5: "map_of [(''urlset'', ?urlset)] ''sitemapindex'' = None"
    by simp
  show ?thesis
    using empty_urlset_is_invalid [OF h1 h2 h3 h4 h5, of 0] by (simp add: fetching_def)
qed

section \<open>The orchestrator\<close>



section \<open>The page pipeline\<close>

text \<open>
  C8. The claim: the render step closes the browser it launched on every exit path,
  also when opening the page fails after the launch. Inside the \<open>try\<close> block it does
  (\<open>browser_closed_inside_try\<close>); but \<open>browser.newPage\<close> is called before the block,
  and when it rejects the function ends with the exception and the browser, launched,
  is never closed.
\<close>

theorem new_page_failure_leaks_browser:
  "fetchPageHtml site_no_page ''https://example.com/1'' = (Inl (Error ''Target closed''), [Launch])
   \<and> launched (snd (fetchPageHtml site_no_page ''https://example.com/1'')) = 1
   \<and> closed (snd (fetchPageHtml site_no_page ''https://example.com/1'')) = 0"
  by (simp add: fetchPageHtml_def site_no_page_def site_def launched_def closed_def)

text \<open>
  What the loop does with the string it hands to the render step: when its navigation
  or capture rejects, the iteration ends after the warning, without a file.
\<close>

lemma loop_skips_failed_render:
  assumes "destructure u = (index, Some pageUrl)"
    and "render E pageUrl = GotoFails m \<or> render E pageUrl = ContentFails m"
  shows "process_urls E len (u # us) =
           (fst (process_urls E len us), skipped index pageUrl m len @ snd (process_urls E len us))"
  using process_url_skips [OF assms] by (simp add: case_prod_beta)


end
